theory Spec2Isabelle
  imports Complex_Main "HOL-Library.Multiset"
begin

section \<open>Data model (types.ts)\<close>

datatype Location = DARMIPARK | PALAPARK

datatype TravelMode = TravelMode_NONE | CAR | TPL | ALTRO

datatype PaymentType = PaymentType_NONE | TICKET | SUBSCRIPTION

datatype CostFrequency = DAILY | WEEKLY | MONTHLY

text \<open>
  \<open>InterviewData\<close>. The field \<open>id\<close> of the source is \<open>rec_id\<close> here (\<open>id\<close> is the
  identity function of HOL). \<open>previousWeeklyCost\<close> is a JavaScript \<open>number\<close>; the
  operations modelled here store and copy it and do no arithmetic on it, and it is kept as
  a real. \<open>interviewDateTime\<close> is a string, as in the source.
\<close>

record InterviewData =
  rec_id :: string
  location :: Location
  previousTravelMode :: TravelMode
  previousPaymentType :: PaymentType
  previousWeeklyCost :: real
  usesParkAndRide :: bool
  interviewDateTime :: string

section \<open>Sorting (sortInterviews)\<close>

text \<open>
  The comparator handed to \<open>Array.prototype.sort\<close>:
  \<open>(a, b) => new Date(b.interviewDateTime).getTime() - new Date(a.interviewDateTime).getTime()\<close>.
  The parser of dates belongs to the JavaScript engine and is a parameter here:
  \<open>getTime s\<close> is \<open>new Date(s).getTime()\<close>, the milliseconds since the epoch, and \<open>None\<close>
  when the string does not parse and the value is \<open>NaN\<close>. A difference with a \<open>NaN\<close>
  operand is \<open>NaN\<close>.
\<close>

definition compareInterviews ::
  "(string \<Rightarrow> int option) \<Rightarrow> InterviewData \<Rightarrow> InterviewData \<Rightarrow> int option" where
  "compareInterviews getTime a b =
     (case (getTime (interviewDateTime b), getTime (interviewDateTime a)) of
        (Some tb, Some ta) \<Rightarrow> Some (tb - ta)
      | _ \<Rightarrow> None)"

text \<open>
  \<open>Array.prototype.sort\<close> reads a comparator result that is \<open>NaN\<close> as \<open>0\<close>, and it is a
  stable sort: \<open>a\<close> stays before \<open>b\<close> unless the comparator is positive on \<open>(a, b)\<close>. It
  is written here as an insertion sort over the comparator, inserting from the right so
  that equal elements keep their order. When every date parses the comparator is a
  consistent order and the result is the one the language fixes. When some date does not
  parse it is not, and the language leaves the order to the engine; the insertion sort
  is then one admissible behaviour.
\<close>

definition nanToZero :: "int option \<Rightarrow> int" where
  "nanToZero v = (case v of None \<Rightarrow> 0 | Some n \<Rightarrow> n)"

fun insertBy :: "('a \<Rightarrow> 'a \<Rightarrow> int option) \<Rightarrow> 'a \<Rightarrow> 'a list \<Rightarrow> 'a list" where
  "insertBy cmp x [] = [x]"
| "insertBy cmp x (y # ys) =
     (if nanToZero (cmp x y) \<le> 0 then x # y # ys else y # insertBy cmp x ys)"

fun sortBy :: "('a \<Rightarrow> 'a \<Rightarrow> int option) \<Rightarrow> 'a list \<Rightarrow> 'a list" where
  "sortBy cmp [] = []"
| "sortBy cmp (x # xs) = insertBy cmp x (sortBy cmp xs)"

definition sortInterviews ::
  "(string \<Rightarrow> int option) \<Rightarrow> InterviewData list \<Rightarrow> InterviewData list" where
  "sortInterviews getTime data = sortBy (compareInterviews getTime) data"

text \<open>
  The order the Dataset is kept in: newest first. Two records are in order when the time
  of the second is not later than the time of the first; a pair with a date that does not
  parse is not constrained.
\<close>

definition newestFirst ::
  "(string \<Rightarrow> int option) \<Rightarrow> InterviewData \<Rightarrow> InterviewData \<Rightarrow> bool" where
  "newestFirst getTime a b =
     (case (getTime (interviewDateTime a), getTime (interviewDateTime b)) of
        (Some ta, Some tb) \<Rightarrow> tb \<le> ta
      | _ \<Rightarrow> True)"

definition descending :: "(string \<Rightarrow> int option) \<Rightarrow> InterviewData list \<Rightarrow> bool" where
  "descending getTime xs = sorted_wrt (newestFirst getTime) xs"

text \<open>Every date of the list parses.\<close>

definition datesParse :: "(string \<Rightarrow> int option) \<Rightarrow> InterviewData list \<Rightarrow> bool" where
  "datesParse getTime xs = (\<forall>x\<in>set xs. getTime (interviewDateTime x) \<noteq> None)"

section \<open>Local Store (db.ts)\<close>

text \<open>
  The object store \<open>interviews\<close> of IndexedDB, created with \<open>keyPath: 'id'\<close>: a map from
  the id to the record.
\<close>

type_synonym store = "string \<rightharpoonup> InterviewData"

text \<open>
  A request to the storage engine. The engine may fail a request for reasons of its own
  (quota, a database that does not open); \<open>idbOk\<close> of the environment says which requests
  it performs. \<open>store.add\<close> fails besides when the key is already in the store
  (\<open>ConstraintError\<close>).
\<close>

datatype idb_request = ReqOpen | ReqAdd InterviewData | ReqClear

text \<open>The values the promises of db.ts reject with.\<close>

datatype db_error =
    ErrorOpeningDatabase              \<comment> \<open>\<open>'Error opening database'\<close>\<close>
  | CouldNotAdd                       \<comment> \<open>\<open>'Could not add interview to the database.'\<close>\<close>
  | CouldNotClear                     \<comment> \<open>\<open>'Could not clear interviews from the database.'\<close>\<close>
  | TransactionFailed                 \<comment> \<open>\<open>'Transaction failed while replacing interviews.'\<close>\<close>

definition addInterviewDB ::
  "(idb_request \<Rightarrow> bool) \<Rightarrow> InterviewData \<Rightarrow> store \<Rightarrow> (db_error + unit) \<times> store" where
  "addInterviewDB eng interview st =
     (if \<not> eng ReqOpen then (Inl ErrorOpeningDatabase, st)
      else if eng (ReqAdd interview) \<and> st (rec_id interview) = None
        then (Inr (), st(rec_id interview \<mapsto> interview))
      else (Inl CouldNotAdd, st))"

definition clearAllInterviewsDB ::
  "(idb_request \<Rightarrow> bool) \<Rightarrow> store \<Rightarrow> (db_error + unit) \<times> store" where
  "clearAllInterviewsDB eng st =
     (if \<not> eng ReqOpen then (Inl ErrorOpeningDatabase, st)
      else if eng ReqClear then (Inr (), Map.empty)
      else (Inl CouldNotClear, st))"

text \<open>
  The \<open>forEach\<close> of \<open>replaceInterviewsDB\<close>: the \<open>add\<close> requests run in order inside the one
  transaction; \<open>None\<close> when one of them fails.
\<close>

fun addAll :: "(idb_request \<Rightarrow> bool) \<Rightarrow> InterviewData list \<Rightarrow> store \<Rightarrow> store option" where
  "addAll eng [] st = Some st"
| "addAll eng (x # xs) st =
     (if eng (ReqAdd x) \<and> st (rec_id x) = None
      then addAll eng xs (st(rec_id x \<mapsto> x))
      else None)"

text \<open>
  \<open>replaceInterviewsDB\<close>. A failing \<open>clear\<close> aborts the transaction and rejects. A failing
  \<open>add\<close> has no handler of its own: its error event reaches \<open>transaction.onerror\<close>, which
  rejects, and the transaction aborts, which undoes the \<open>clear\<close> as well. Otherwise
  \<open>transaction.oncomplete\<close> resolves.
\<close>

definition replaceInterviewsDB ::
  "(idb_request \<Rightarrow> bool) \<Rightarrow> InterviewData list \<Rightarrow> store \<Rightarrow> (db_error + unit) \<times> store" where
  "replaceInterviewsDB eng interviews st =
     (if \<not> eng ReqOpen then (Inl ErrorOpeningDatabase, st)
      else if \<not> eng ReqClear then (Inl CouldNotClear, st)
      else if interviews = [] then (Inr (), Map.empty)
      else (case addAll eng interviews Map.empty of
              Some st' \<Rightarrow> (Inr (), st')
            | None \<Rightarrow> (Inl TransactionFailed, st)))"

text \<open>The store that holds exactly the given records, each under its id.\<close>

definition storeOf :: "InterviewData list \<Rightarrow> store" where
  "storeOf xs = map_of (map (\<lambda>x. (rec_id x, x)) xs)"

section \<open>The remote store and the environment\<close>

datatype http_method = GET | POST | PATCH

datatype req_body =
    NoBody
  | JsonArrayBody "InterviewData list"    \<comment> \<open>\<open>JSON.stringify(records)\<close>; \<open>'[]'\<close> is \<open>JsonArrayBody []\<close>\<close>
  | JsonPatchAdd InterviewData            \<comment> \<open>\<open>[{ op: 'add', path: '/-', value: interview }]\<close>\<close>

record http_request =
  req_method :: http_method
  req_url :: string
  req_contentType :: "string option"
  req_body :: req_body

text \<open>What \<open>response.json()\<close> gives: it throws on text that is not JSON.\<close>

datatype payload = InvalidJson | JsonArray "InterviewData list" | JsonOther

record http_response =
  resp_status :: nat
  resp_etag :: "string option"            \<comment> \<open>\<open>response.headers.get('ETag')\<close>\<close>
  resp_body :: payload

definition ok :: "http_response \<Rightarrow> bool" where
  "ok r = (200 \<le> resp_status r \<and> resp_status r \<le> 299)"

text \<open>\<open>fetch\<close> rejects when no response arrives, and resolves with the response otherwise.\<close>

datatype fetch_outcome = NetworkError | Response http_response

record Env =
  getTime :: "string \<Rightarrow> int option"        \<comment> \<open>\<open>new Date(s).getTime()\<close>, \<open>None\<close> for \<open>NaN\<close>\<close>
  net :: "http_request \<Rightarrow> fetch_outcome"    \<comment> \<open>the answer of the network to a request\<close>
  confirmAnswer :: bool                       \<comment> \<open>what \<open>window.confirm\<close> returns\<close>
  idbOk :: "idb_request \<Rightarrow> bool"

section \<open>Session Controller (App)\<close>

datatype SyncStatus = Idle | Connecting | Syncing | Connected | Error

datatype SessionMode = Welcome | Local | Online

text \<open>What the operations throw or reject with.\<close>

datatype error =
    InvalidUrl                  \<comment> \<open>\<open>new Error("URL non valido.")\<close>\<close>
  | FetchHttpError nat          \<comment> \<open>\<open>Impossibile recuperare i dati. (HTTP status)\<close>\<close>
  | SyncHttpError nat           \<comment> \<open>\<open>Sincronizzazione fallita. (HTTP status)\<close>\<close>
  | NetworkFailure              \<comment> \<open>the \<open>TypeError\<close> of a rejected \<open>fetch\<close>\<close>
  | JsonSyntaxError             \<comment> \<open>the \<open>SyntaxError\<close> of \<open>response.json()\<close>\<close>
  | DbRejection db_error        \<comment> \<open>a string, not an \<open>Error\<close> object\<close>

definition isErrorInstance :: "error \<Rightarrow> bool" where
  "isErrorInstance e = (case e of DbRejection _ \<Rightarrow> False | _ \<Rightarrow> True)"

text \<open>The texts given to \<open>setSyncError\<close>.\<close>

datatype sync_msg =
    MsgInvalidUrl               \<comment> \<open>\<open>URL non valido. Assicurati che inizi con 'https://kvdb.io/'.\<close>\<close>
  | MsgConnectFailed error      \<comment> \<open>\<open>URL non valido o sessione non trovata.\<close> and the message\<close>
  | MsgUnknown                  \<comment> \<open>\<open>Errore sconosciuto\<close>\<close>
  | MsgAddFailed "error option" \<comment> \<open>\<open>Sincronizzazione fallita: ... salvata solo localmente.\<close>\<close>

text \<open>
  The state of the component, with the two stores it writes to (\<open>localStorage\<close> and the
  IndexedDB object store) and the list of the requests sent to the network so far.
\<close>

record AppState =
  sessionMode :: SessionMode
  interviews :: "InterviewData list"
  isLoading :: bool
  syncUrl :: "string option"
  syncStatus :: SyncStatus
  syncError :: "sync_msg option"
  etag :: "string option"
  localStorage :: "string \<rightharpoonup> string"
  db :: store
  requests :: "http_request list"

definition fetch :: "Env \<Rightarrow> http_request \<Rightarrow> AppState \<Rightarrow> fetch_outcome \<times> AppState" where
  "fetch env req s = (net env req, s\<lparr>requests := requests s @ [req]\<rparr>)"

text \<open>\<open>url.startsWith(p)\<close>.\<close>

definition startsWith :: "string \<Rightarrow> string \<Rightarrow> bool" where
  "startsWith s p = (take (length p) s = p)"

definition KVDB_PREFIX :: string where
  "KVDB_PREFIX = ''https://kvdb.io/''"

text \<open>\<open>const newEtag = response.headers.get('ETag'); if (newEtag) setEtag(newEtag);\<close>\<close>

definition recordEtag :: "http_response \<Rightarrow> AppState \<Rightarrow> AppState" where
  "recordEtag r s =
     (case resp_etag r of
        None \<Rightarrow> s
      | Some e \<Rightarrow> if e = [] then s else s\<lparr>etag := Some e\<rparr>)"

definition getRequest :: "string \<Rightarrow> http_request" where
  "getRequest url =
     \<lparr>req_method = GET, req_url = url, req_contentType = None, req_body = NoBody\<rparr>"

definition getBinData ::
  "Env \<Rightarrow> string \<Rightarrow> AppState \<Rightarrow> (error + InterviewData list) \<times> AppState" where
  "getBinData env url s =
     (case fetch env (getRequest url) s of
        (NetworkError, s1) \<Rightarrow> (Inl NetworkFailure, s1)
      | (Response response, s1) \<Rightarrow>
          if \<not> ok response then (Inl (FetchHttpError (resp_status response)), s1)
          else
            let s2 = recordEtag response s1 in
            (case resp_body response of
               InvalidJson \<Rightarrow> (Inl JsonSyntaxError, s2)
             | JsonArray data \<Rightarrow> (Inr data, s2)
             | JsonOther \<Rightarrow> (Inr [], s2)))"

text \<open>
  \<open>handleConnectSession\<close>. The \<open>catch\<close> block sets the status and the message and throws
  the error again; the \<open>finally\<close> block runs on every path behind the check of the URL.
\<close>

definition connectCatch :: "error \<Rightarrow> AppState \<Rightarrow> (error + unit) \<times> AppState" where
  "connectCatch e s =
     (Inl e, s\<lparr>syncStatus := Error,
               syncError := Some (if isErrorInstance e then MsgConnectFailed e else MsgUnknown)\<rparr>)"

definition connectTry :: "Env \<Rightarrow> string \<Rightarrow> bool \<Rightarrow> AppState \<Rightarrow> (error + unit) \<times> AppState" where
  "connectTry env url shouldConfirm s =
     (case getBinData env url s of
        (Inl e, s1) \<Rightarrow> connectCatch e s1
      | (Inr cloudData, s1) \<Rightarrow>
          if \<not> shouldConfirm \<or> confirmAnswer env then
            let sortedData = sortInterviews (getTime env) cloudData;
                s2 = s1\<lparr>localStorage :=
                          (localStorage s1)(''sessionMode'' \<mapsto> ''online'', ''syncUrl'' \<mapsto> url),
                        syncUrl := Some url,
                        interviews := sortedData\<rparr>
            in (case replaceInterviewsDB (idbOk env) sortedData (db s2) of
                  (Inl e, d) \<Rightarrow> connectCatch (DbRejection e) (s2\<lparr>db := d\<rparr>)
                | (Inr u, d) \<Rightarrow>
                    (Inr (), s2\<lparr>db := d, sessionMode := Online, syncStatus := Connected\<rparr>))
          else (Inr (), s1\<lparr>syncStatus := Idle\<rparr>))"

definition handleConnectSession ::
  "Env \<Rightarrow> string \<Rightarrow> bool \<Rightarrow> AppState \<Rightarrow> (error + unit) \<times> AppState" where
  "handleConnectSession env url shouldConfirm s =
     (if \<not> startsWith url KVDB_PREFIX
      then (Inl InvalidUrl, s\<lparr>syncError := Some MsgInvalidUrl\<rparr>)
      else
        let s1 = s\<lparr>syncStatus := Connecting, syncError := None, isLoading := True\<rparr> in
        (case connectTry env url shouldConfirm s1 of
           (res, s2) \<Rightarrow> (res, s2\<lparr>isLoading := False\<rparr>)))"

text \<open>\<open>sessionMode === 'online' && syncUrl\<close>: the URL is neither \<open>null\<close> nor empty.\<close>

definition sharedUrl :: "AppState \<Rightarrow> string option" where
  "sharedUrl s =
     (case syncUrl s of
        None \<Rightarrow> None
      | Some u \<Rightarrow> if sessionMode s = Online \<and> u \<noteq> [] then Some u else None)"

definition patchRequest :: "string \<Rightarrow> InterviewData \<Rightarrow> http_request" where
  "patchRequest url interview =
     \<lparr>req_method = PATCH, req_url = url,
      req_contentType = Some ''application/json-patch+json'',
      req_body = JsonPatchAdd interview\<rparr>"

definition overwriteRequest :: "string \<Rightarrow> InterviewData list \<Rightarrow> http_request" where
  "overwriteRequest url data =
     \<lparr>req_method = POST, req_url = url,
      req_contentType = Some ''application/json'',
      req_body = JsonArrayBody data\<rparr>"

text \<open>
  \<open>addInterview\<close>. The \<open>catch\<close> block saves the record locally and throws the error it
  caught; when that local save rejects too, its rejection is what leaves the function.
\<close>

definition addCatch ::
  "Env \<Rightarrow> InterviewData \<Rightarrow> error \<Rightarrow> AppState \<Rightarrow> (error + unit) \<times> AppState" where
  "addCatch env interview e s =
     (let s1 = s\<lparr>syncStatus := Error,
                 syncError := Some (MsgAddFailed (if isErrorInstance e then Some e else None))\<rparr>
      in case addInterviewDB (idbOk env) interview (db s1) of
           (Inl e', d) \<Rightarrow> (Inl (DbRejection e'), s1\<lparr>db := d\<rparr>)
         | (Inr u, d) \<Rightarrow> (Inl e, s1\<lparr>db := d\<rparr>))"

definition addInterview ::
  "Env \<Rightarrow> InterviewData \<Rightarrow> AppState \<Rightarrow> (error + unit) \<times> AppState" where
  "addInterview env interview s =
     (let optimisticNewData = sortInterviews (getTime env) (interviews s @ [interview]);
          s1 = s\<lparr>interviews := optimisticNewData\<rparr>
      in case sharedUrl s of
           Some url \<Rightarrow>
             (case fetch env (patchRequest url interview) (s1\<lparr>syncStatus := Syncing\<rparr>) of
                (NetworkError, s2) \<Rightarrow> addCatch env interview NetworkFailure s2
              | (Response response, s2) \<Rightarrow>
                  if \<not> ok response
                  then addCatch env interview (SyncHttpError (resp_status response)) s2
                  else (case addInterviewDB (idbOk env) interview (db s2) of
                          (Inl e, d) \<Rightarrow> addCatch env interview (DbRejection e) (s2\<lparr>db := d\<rparr>)
                        | (Inr u, d) \<Rightarrow>
                            (Inr (), (recordEtag response (s2\<lparr>db := d\<rparr>))
                                       \<lparr>syncStatus := Connected\<rparr>)))
         | None \<Rightarrow>
             (case addInterviewDB (idbOk env) interview (db s1) of
                (Inl e, d) \<Rightarrow> (Inl (DbRejection e), s1\<lparr>db := d\<rparr>)
              | (Inr u, d) \<Rightarrow> (Inr (), s1\<lparr>db := d\<rparr>)))"

text \<open>
  \<open>clearInterviews\<close>: the response of the overwrite is not looked at; a \<open>fetch\<close> that
  rejects ends the function before the local steps.
\<close>

definition clearLocal :: "Env \<Rightarrow> AppState \<Rightarrow> (error + unit) \<times> AppState" where
  "clearLocal env s =
     (case clearAllInterviewsDB (idbOk env) (db s) of
        (Inl e, d) \<Rightarrow> (Inl (DbRejection e), s\<lparr>db := d\<rparr>)
      | (Inr u, d) \<Rightarrow> (Inr (), s\<lparr>db := d, interviews := []\<rparr>))"

definition clearInterviews :: "Env \<Rightarrow> AppState \<Rightarrow> (error + unit) \<times> AppState" where
  "clearInterviews env s =
     (case sharedUrl s of
        Some url \<Rightarrow>
          (case fetch env (overwriteRequest url []) s of
             (NetworkError, s1) \<Rightarrow> (Inl NetworkFailure, s1)
           | (Response response, s1) \<Rightarrow> clearLocal env s1)
      | None \<Rightarrow> clearLocal env s)"

text \<open>\<open>replaceInterviews\<close>: only the \<open>ETag\<close> of the response is read.\<close>

definition replaceLocal ::
  "Env \<Rightarrow> InterviewData list \<Rightarrow> AppState \<Rightarrow> (error + unit) \<times> AppState" where
  "replaceLocal env sortedData s =
     (case replaceInterviewsDB (idbOk env) sortedData (db s) of
        (Inl e, d) \<Rightarrow> (Inl (DbRejection e), s\<lparr>db := d\<rparr>)
      | (Inr u, d) \<Rightarrow> (Inr (), s\<lparr>db := d, interviews := sortedData\<rparr>))"

definition replaceInterviews ::
  "Env \<Rightarrow> InterviewData list \<Rightarrow> AppState \<Rightarrow> (error + unit) \<times> AppState" where
  "replaceInterviews env newInterviews s =
     (let sortedData = sortInterviews (getTime env) newInterviews
      in case sharedUrl s of
           Some url \<Rightarrow>
             (case fetch env (overwriteRequest url sortedData) s of
                (NetworkError, s1) \<Rightarrow> (Inl NetworkFailure, s1)
              | (Response response, s1) \<Rightarrow>
                  replaceLocal env sortedData (recordEtag response s1))
         | None \<Rightarrow> replaceLocal env sortedData s)"

section \<open>The remote array\<close>

text \<open>
  Modelled from the spec: the remote key-value service is not part of the repository.
  By section 6 of the specification a \<open>POST\<close> to the resource URL with a JSON array as
  body overwrites the array, a \<open>PATCH\<close> with the JSON patch appends one element, and a
  \<open>GET\<close> changes nothing. A request changes the array only when the service answers it
  with a success status. The remote is a map from the URL to the array stored there.
\<close>

type_synonym remote = "string \<rightharpoonup> InterviewData list"

definition remoteEffect :: "http_request \<Rightarrow> fetch_outcome \<Rightarrow> remote \<Rightarrow> remote" where
  "remoteEffect req outcome rem =
     (case outcome of
        NetworkError \<Rightarrow> rem
      | Response r \<Rightarrow>
          if \<not> ok r then rem
          else (case (req_method req, req_body req) of
                  (POST, JsonArrayBody xs) \<Rightarrow> rem(req_url req \<mapsto> xs)
                | (PATCH, JsonPatchAdd x) \<Rightarrow>
                    (case rem (req_url req) of
                       None \<Rightarrow> rem
                     | Some xs \<Rightarrow> rem(req_url req \<mapsto> xs @ [x]))
                | _ \<Rightarrow> rem))"

text \<open>The remote after the requests of the log, each with the answer the network gave it.\<close>

definition remoteAfter :: "Env \<Rightarrow> http_request list \<Rightarrow> remote \<Rightarrow> remote" where
  "remoteAfter env reqs rem = foldl (\<lambda>m req. remoteEffect req (net env req) m) rem reqs"

section \<open>Concrete inputs\<close>

text \<open>
  Four dates, and a parser that knows them: \<open>exampleClock\<close> gives the value of
  \<open>new Date(s).getTime()\<close> on each, and \<open>None\<close> on every other string.
\<close>

definition DEC :: string where
  "DEC = ''2023-12-01T10:00:00Z''"

definition JAN :: string where
  "JAN = ''2024-01-01T10:00:00Z''"

definition FEB :: string where
  "FEB = ''2024-02-01T10:00:00Z''"

definition MAR :: string where
  "MAR = ''2024-03-01T10:00:00Z''"

definition exampleClock :: "string \<Rightarrow> int option" where
  "exampleClock s =
     (if s = DEC then Some 1701424800000
      else if s = JAN then Some 1704103200000
      else if s = FEB then Some 1706781600000
      else if s = MAR then Some 1709287200000
      else None)"

text \<open>A record as in the scenario of the specification, with the id and the date given.\<close>

definition exampleRecord :: "string \<Rightarrow> string \<Rightarrow> InterviewData" where
  "exampleRecord i d =
     \<lparr>rec_id = i, location = DARMIPARK, previousTravelMode = CAR,
      previousPaymentType = TICKET, previousWeeklyCost = 10, usesParkAndRide = True,
      interviewDateTime = d\<rparr>"

text \<open>All inserts of a bulk replace succeed: the engine performs each, and no id occurs twice.\<close>

definition insertsSucceed :: "(idb_request \<Rightarrow> bool) \<Rightarrow> InterviewData list \<Rightarrow> bool" where
  "insertsSucceed eng xs = ((\<forall>x\<in>set xs. eng (ReqAdd x)) \<and> distinct (map rec_id xs))"

text \<open>A storage engine that performs every request.\<close>

definition healthyEngine :: "idb_request \<Rightarrow> bool" where
  "healthyEngine req = True"

text \<open>A storage engine that performs every request but \<open>clear\<close>.\<close>

definition noClearEngine :: "idb_request \<Rightarrow> bool" where
  "noClearEngine req = (req \<noteq> ReqClear)"

text \<open>A network that gives no response, and one that answers every request with \<open>r\<close>.\<close>

definition offlineEnv :: Env where
  "offlineEnv =
     \<lparr>getTime = exampleClock, net = (\<lambda>req. NetworkError), confirmAnswer = False,
      idbOk = healthyEngine\<rparr>"

definition respondingEnv :: "http_response \<Rightarrow> Env" where
  "respondingEnv r =
     \<lparr>getTime = exampleClock, net = (\<lambda>req. Response r), confirmAnswer = False,
      idbOk = healthyEngine\<rparr>"

text \<open>The state before a session is chosen, and a connected shared session on \<open>xs\<close>.\<close>

definition welcomeState :: AppState where
  "welcomeState =
     \<lparr>sessionMode = Welcome, interviews = [], isLoading = False, syncUrl = None,
      syncStatus = Idle, syncError = None, etag = None, localStorage = Map.empty,
      db = Map.empty, requests = []\<rparr>"

definition sharedState :: "string \<Rightarrow> InterviewData list \<Rightarrow> AppState" where
  "sharedState url xs =
     \<lparr>sessionMode = Online, interviews = xs, isLoading = False, syncUrl = Some url,
      syncStatus = Connected, syncError = None, etag = None,
      localStorage = [''sessionMode'' \<mapsto> ''online'', ''syncUrl'' \<mapsto> url],
      db = storeOf xs, requests = []\<rparr>"

section \<open>Properties of the sort\<close>

lemma set_insertBy: "set (insertBy cmp x xs) = insert x (set xs)"
  by (induction xs) auto

lemma mset_insertBy: "mset (insertBy cmp x xs) = add_mset x (mset xs)"
  by (induction xs) auto

lemma mset_sortBy: "mset (sortBy cmp xs) = mset xs"
  by (induction xs) (simp_all add: mset_insertBy)

lemma mset_sortInterviews: "mset (sortInterviews gt xs) = mset xs"
  by (simp add: sortInterviews_def mset_sortBy)

lemma set_sortInterviews: "set (sortInterviews gt xs) = set xs"
  by (metis mset_sortInterviews set_mset_mset)

lemma sortInterviews_Nil: "sortInterviews gt [] = []"
  by (simp add: sortInterviews_def)

lemma datesParse_sortInterviews: "datesParse gt (sortInterviews gt xs) = datesParse gt xs"
  by (simp add: datesParse_def set_sortInterviews)

text \<open>With dates that parse, the comparator is the difference of the two times.\<close>

lemma compare_parsed:
  "gt (interviewDateTime x) = Some tx \<Longrightarrow> gt (interviewDateTime y) = Some ty \<Longrightarrow>
   nanToZero (compareInterviews gt x y) = ty - tx"
  by (simp add: compareInterviews_def nanToZero_def)

lemma newestFirst_parsed:
  "gt (interviewDateTime x) = Some tx \<Longrightarrow> gt (interviewDateTime y) = Some ty \<Longrightarrow>
   newestFirst gt x y = (ty \<le> tx)"
  by (simp add: newestFirst_def)

lemma newestFirst_trans:
  "datesParse gt [x, y, z] \<Longrightarrow> newestFirst gt x y \<Longrightarrow> newestFirst gt y z \<Longrightarrow>
   newestFirst gt x z"
  by (auto simp: datesParse_def newestFirst_def)

lemma insert_in_front:
  "datesParse gt [x, y] \<Longrightarrow>
   (nanToZero (compareInterviews gt x y) \<le> 0) = newestFirst gt x y"
  by (auto simp: datesParse_def compare_parsed newestFirst_parsed)

lemma newestFirst_total:
  "datesParse gt [x, y] \<Longrightarrow> \<not> newestFirst gt x y \<Longrightarrow> newestFirst gt y x"
  by (auto simp: datesParse_def newestFirst_def)

lemma descending_insertBy:
  "datesParse gt (x # xs) \<Longrightarrow> descending gt xs \<Longrightarrow>
   descending gt (insertBy (compareInterviews gt) x xs)"
proof (induction xs)
  case Nil
  show ?case by (simp add: descending_def)
next
  case (Cons y ys)
  have xy: "datesParse gt [x, y]"
    using Cons.prems(1) by (simp add: datesParse_def)
  show ?case
  proof (cases "newestFirst gt x y")
    case True
    have "newestFirst gt x z" if "z \<in> set ys" for z
    proof -
      have "datesParse gt [x, y, z]"
        using Cons.prems(1) that by (simp add: datesParse_def)
      moreover have "newestFirst gt y z"
        using Cons.prems(2) that by (simp add: descending_def)
      ultimately show ?thesis using True by (blast intro: newestFirst_trans)
    qed
    then show ?thesis
      using True Cons.prems(2) by (simp add: insert_in_front [OF xy] descending_def)
  next
    case False
    have yx: "newestFirst gt y x"
      using xy False by (rule newestFirst_total)
    have "datesParse gt (x # ys)"
      using Cons.prems(1) by (simp add: datesParse_def)
    moreover have "descending gt ys"
      using Cons.prems(2) by (simp add: descending_def)
    ultimately have "descending gt (insertBy (compareInterviews gt) x ys)"
      by (rule Cons.IH)
    then show ?thesis
      using False yx Cons.prems(2)
      by (auto simp: insert_in_front [OF xy] descending_def set_insertBy)
  qed
qed

lemma descending_sortInterviews:
  "datesParse gt xs \<Longrightarrow> descending gt (sortInterviews gt xs)"
proof (induction xs)
  case Nil
  show ?case by (simp add: sortInterviews_def descending_def)
next
  case (Cons x xs)
  have "datesParse gt xs"
    using Cons.prems by (simp add: datesParse_def)
  then have "descending gt (sortInterviews gt xs)"
    by (rule Cons.IH)
  moreover have "datesParse gt (x # sortInterviews gt xs)"
    using Cons.prems by (simp add: datesParse_def set_sortInterviews)
  ultimately have "descending gt (insertBy (compareInterviews gt) x (sortInterviews gt xs))"
    by (rule descending_insertBy [rotated])
  then show ?case by (simp add: sortInterviews_def)
qed

lemma insertBy_front:
  "datesParse gt (x # xs) \<Longrightarrow> descending gt (x # xs) \<Longrightarrow>
   insertBy (compareInterviews gt) x xs = x # xs"
proof (cases xs)
  case Nil
  then show ?thesis by simp
next
  case (Cons y ys)
  assume "datesParse gt (x # xs)" and "descending gt (x # xs)"
  then have "datesParse gt [x, y]" and "newestFirst gt x y"
    using Cons by (simp_all add: datesParse_def descending_def)
  then show ?thesis
    using Cons by (simp add: insert_in_front)
qed

lemma sortInterviews_fixes_descending:
  "datesParse gt xs \<Longrightarrow> descending gt xs \<Longrightarrow> sortInterviews gt xs = xs"
proof (induction xs)
  case Nil
  show ?case by (simp add: sortInterviews_def)
next
  case (Cons x xs)
  have "datesParse gt xs" and "descending gt xs"
    using Cons.prems by (simp_all add: datesParse_def descending_def)
  then have "sortInterviews gt xs = xs" by (rule Cons.IH)
  then show ?case
    using insertBy_front [OF Cons.prems] by (simp add: sortInterviews_def)
qed

lemma filter_insertBy_time:
  "datesParse gt (x # xs) \<Longrightarrow> descending gt xs \<Longrightarrow>
   filter (\<lambda>y. gt (interviewDateTime y) = Some t) (insertBy (compareInterviews gt) x xs) =
     (if gt (interviewDateTime x) = Some t
      then x # filter (\<lambda>y. gt (interviewDateTime y) = Some t) xs
      else filter (\<lambda>y. gt (interviewDateTime y) = Some t) xs)"
proof (induction xs)
  case Nil
  show ?case by simp
next
  case (Cons y ys)
  have xy: "datesParse gt [x, y]"
    using Cons.prems(1) by (simp add: datesParse_def)
  show ?case
  proof (cases "newestFirst gt x y")
    case True
    then show ?thesis by (simp add: insert_in_front [OF xy])
  next
    case False
    have "datesParse gt (x # ys)" and "descending gt ys"
      using Cons.prems by (simp_all add: datesParse_def descending_def)
    then have IH: "filter (\<lambda>y. gt (interviewDateTime y) = Some t)
                     (insertBy (compareInterviews gt) x ys) =
       (if gt (interviewDateTime x) = Some t
        then x # filter (\<lambda>y. gt (interviewDateTime y) = Some t) ys
        else filter (\<lambda>y. gt (interviewDateTime y) = Some t) ys)"
      by (rule Cons.IH)
    have differ: "\<not> (gt (interviewDateTime x) = Some t \<and> gt (interviewDateTime y) = Some t)"
      using False by (auto simp: newestFirst_def)
    show ?thesis
      using False IH differ by (simp add: insert_in_front [OF xy])
  qed
qed

lemma sortInterviews_stable:
  "datesParse gt xs \<Longrightarrow>
   filter (\<lambda>y. gt (interviewDateTime y) = Some t) (sortInterviews gt xs) =
   filter (\<lambda>y. gt (interviewDateTime y) = Some t) xs"
proof (induction xs)
  case Nil
  show ?case by (simp add: sortInterviews_def)
next
  case (Cons x xs)
  have p: "datesParse gt xs"
    using Cons.prems by (simp add: datesParse_def)
  have d: "descending gt (sortInterviews gt xs)"
    using p by (rule descending_sortInterviews)
  have q: "datesParse gt (x # sortInterviews gt xs)"
    using Cons.prems by (simp add: datesParse_def set_sortInterviews)
  have "sortInterviews gt (x # xs) = insertBy (compareInterviews gt) x (sortInterviews gt xs)"
    by (simp add: sortInterviews_def)
  then show ?case
    using Cons.IH [OF p] by (simp add: filter_insertBy_time [OF q d])
qed

text \<open>
  Claim C7 (amended). For every Dataset \<open>D\<close> whose dates all parse, \<open>sortInterviews D\<close> is
  ordered by \<open>interviewDateTime\<close> descending and holds the records of \<open>D\<close>, each as often
  as \<open>D\<close> does; sorting a second time changes nothing. Records that share a timestamp keep
  the order they had in \<open>D\<close>, so the result is the same sequence also when timestamps are
  equal.
\<close>

theorem sortInterviews_descending_idempotent:
  assumes "datesParse gt D"
  shows "descending gt (sortInterviews gt D) \<and>
         datesParse gt (sortInterviews gt D) \<and>
         mset (sortInterviews gt D) = mset D \<and>
         sortInterviews gt (sortInterviews gt D) = sortInterviews gt D \<and>
         filter (\<lambda>y. gt (interviewDateTime y) = Some t) (sortInterviews gt D) =
           filter (\<lambda>y. gt (interviewDateTime y) = Some t) D"
proof -
  have d: "descending gt (sortInterviews gt D)"
    using assms by (rule descending_sortInterviews)
  have p: "datesParse gt (sortInterviews gt D)"
    using assms by (simp add: datesParse_sortInterviews)
  have "sortInterviews gt (sortInterviews gt D) = sortInterviews gt D"
    using p d by (rule sortInterviews_fixes_descending)
  then show ?thesis
    using assms d p by (simp add: mset_sortInterviews sortInterviews_stable)
qed

theorem sortInterviews_descending_idempotent_witness:
  "datesParse exampleClock
     [exampleRecord ''a'' JAN, exampleRecord ''b'' FEB, exampleRecord ''c'' JAN] \<and>
   sortInterviews exampleClock
     [exampleRecord ''a'' JAN, exampleRecord ''b'' FEB, exampleRecord ''c'' JAN] =
     [exampleRecord ''b'' FEB, exampleRecord ''a'' JAN, exampleRecord ''c'' JAN] \<and>
   descending exampleClock
     [exampleRecord ''b'' FEB, exampleRecord ''a'' JAN, exampleRecord ''c'' JAN] \<and>
   sortInterviews exampleClock
     [exampleRecord ''b'' FEB, exampleRecord ''a'' JAN, exampleRecord ''c'' JAN] =
     [exampleRecord ''b'' FEB, exampleRecord ''a'' JAN, exampleRecord ''c'' JAN]"
proof -
  let ?D = "[exampleRecord ''a'' JAN, exampleRecord ''b'' FEB, exampleRecord ''c'' JAN]"
  have parse: "datesParse exampleClock ?D"
    by (simp add: datesParse_def exampleClock_def exampleRecord_def JAN_def FEB_def DEC_def)
  have sorted: "sortInterviews exampleClock ?D =
      [exampleRecord ''b'' FEB, exampleRecord ''a'' JAN, exampleRecord ''c'' JAN]"
    by (simp add: sortInterviews_def compareInterviews_def nanToZero_def exampleClock_def
        exampleRecord_def JAN_def FEB_def DEC_def)
  show ?thesis
    using sortInterviews_descending_idempotent [OF parse, of 1704103200000] parse sorted
    by simp
qed

text \<open>
  The claim as stated fails for a Dataset with a date that does not parse: the record
  \<open>x\<close> compares as equal to every other one, and the sorted list has the record of
  January before the record of March.
\<close>

theorem sortInterviews_unparsable_date_counterexample:
  "sortInterviews exampleClock
     [exampleRecord ''a'' JAN, exampleRecord ''x'' ''not a date'', exampleRecord ''b'' FEB,
      exampleRecord ''c'' MAR] =
     [exampleRecord ''a'' JAN, exampleRecord ''x'' ''not a date'', exampleRecord ''c'' MAR,
      exampleRecord ''b'' FEB] \<and>
   \<not> descending exampleClock
     [exampleRecord ''a'' JAN, exampleRecord ''x'' ''not a date'', exampleRecord ''c'' MAR,
      exampleRecord ''b'' FEB]"
  by (simp add: sortInterviews_def compareInterviews_def nanToZero_def descending_def
      newestFirst_def exampleClock_def exampleRecord_def DEC_def JAN_def FEB_def MAR_def)

section \<open>Properties of the Local Store\<close>

lemma addAll_SomeD:
  "addAll eng xs st = Some st' \<Longrightarrow>
     (\<forall>x\<in>set xs. eng (ReqAdd x)) \<and> distinct (map rec_id xs) \<and>
     (\<forall>x\<in>set xs. st (rec_id x) = None)"
proof (induction xs arbitrary: st)
  case Nil
  then show ?case by simp
next
  case (Cons x xs)
  then show ?case by (fastforce split: if_splits)
qed

lemma storeOf_Cons: "storeOf (x # xs) = (storeOf xs)(rec_id x \<mapsto> x)"
  by (simp add: storeOf_def)

lemma storeOf_Some_iff:
  "distinct (map rec_id xs) \<Longrightarrow> storeOf xs k = Some r \<longleftrightarrow> r \<in> set xs \<and> rec_id r = k"
proof (induction xs)
  case Nil
  show ?case by (simp add: storeOf_def)
next
  case (Cons x xs)
  then show ?case by (auto simp: storeOf_Cons image_iff)
qed

lemma ran_storeOf: "distinct (map rec_id xs) \<Longrightarrow> ran (storeOf xs) = set xs"
  by (auto simp: ran_def storeOf_Some_iff)

lemma storeOf_None_iff: "storeOf xs k = None \<longleftrightarrow> k \<notin> rec_id ` set xs"
  by (induction xs) (auto simp: storeOf_def)

lemma addAll_ok:
  "(\<forall>x\<in>set xs. eng (ReqAdd x)) \<Longrightarrow> distinct (map rec_id xs) \<Longrightarrow>
   (\<forall>x\<in>set xs. st (rec_id x) = None) \<Longrightarrow>
   addAll eng xs st = Some (st ++ storeOf xs)"
proof (induction xs arbitrary: st)
  case Nil
  then show ?case by (simp add: storeOf_def)
next
  case (Cons x xs)
  have fresh: "storeOf xs (rec_id x) = None"
    using Cons.prems(2) by (simp add: storeOf_None_iff)
  have ne: "rec_id y \<noteq> rec_id x" if "y \<in> set xs" for y
    using Cons.prems(2) that by (metis distinct.simps(2) image_eqI list.simps(9) set_map)
  have "addAll eng xs (st(rec_id x \<mapsto> x)) = Some (st(rec_id x \<mapsto> x) ++ storeOf xs)"
  proof (rule Cons.IH)
    show "\<forall>x\<in>set xs. eng (ReqAdd x)" using Cons.prems(1) by simp
    show "distinct (map rec_id xs)" using Cons.prems(2) by simp
    show "\<forall>y\<in>set xs. (st(rec_id x \<mapsto> x)) (rec_id y) = None"
      using Cons.prems(3) ne by simp
  qed
  moreover have "st(rec_id x \<mapsto> x) ++ storeOf xs = st ++ storeOf (x # xs)"
    using fresh by (auto simp: storeOf_Cons map_add_def fun_eq_iff split: option.splits)
  ultimately show ?case using Cons.prems by simp
qed

lemma addAll_empty:
  "insertsSucceed eng xs \<Longrightarrow> addAll eng xs Map.empty = Some (storeOf xs)"
  using addAll_ok [of xs eng Map.empty] by (simp add: insertsSucceed_def)

lemma addAll_None:
  "\<not> insertsSucceed eng xs \<Longrightarrow> addAll eng xs Map.empty = None"
  using addAll_SomeD [of eng xs Map.empty]
  by (cases "addAll eng xs Map.empty") (auto simp: insertsSucceed_def)

lemma replaceInterviewsDB_cases:
  assumes "eng ReqOpen"
  shows "replaceInterviewsDB eng xs st =
       (if \<not> eng ReqClear then (Inl CouldNotClear, st)
        else if insertsSucceed eng xs then (Inr (), storeOf xs)
        else (Inl TransactionFailed, st))"
proof (cases "insertsSucceed eng xs")
  case True
  then have "addAll eng xs Map.empty = Some (storeOf xs)"
    by (rule addAll_empty)
  moreover have "storeOf [] = Map.empty" by (simp add: storeOf_def)
  ultimately show ?thesis using assms True by (simp add: replaceInterviewsDB_def)
next
  case False
  then have "addAll eng xs Map.empty = None"
    by (rule addAll_None)
  moreover have "xs \<noteq> []" using False by (auto simp: insertsSucceed_def)
  ultimately show ?thesis using assms False by (simp add: replaceInterviewsDB_def)
qed

lemma insertsSucceed_sortInterviews:
  "insertsSucceed eng (sortInterviews gt rs) = insertsSucceed eng rs"
proof -
  have "mset (map rec_id (sortInterviews gt rs)) = mset (map rec_id rs)"
    by (simp add: mset_sortInterviews)
  then have "distinct (map rec_id (sortInterviews gt rs)) = distinct (map rec_id rs)"
    by (rule mset_eq_imp_distinct_iff)
  then show ?thesis by (simp add: insertsSucceed_def set_sortInterviews)
qed

lemma addInterviewDB_contains:
  "eng ReqOpen \<Longrightarrow> eng (ReqAdd r) \<Longrightarrow> st (rec_id r) = None \<Longrightarrow>
   addInterviewDB eng r st = (Inr (), st(rec_id r \<mapsto> r))"
  by (simp add: addInterviewDB_def)

lemma addInterviewDB_keeps:
  "st k = Some x \<Longrightarrow> snd (addInterviewDB eng r st) k = Some x"
  by (auto simp: addInterviewDB_def)

text \<open>
  Claim C2 (amended). When the database opens, \<open>replaceInterviewsDB\<close> resolves exactly when
  the clear step succeeds and every insert succeeds, and the store then holds exactly the
  given records. A failing clear step rejects with \<open>CouldNotClear\<close>. A failing insert (the
  engine refuses it, or two of the records share an id) rejects as well, with
  \<open>TransactionFailed\<close>, and the aborted transaction leaves the store as it was.
\<close>

theorem replaceInterviewsDB_outcome:
  assumes "eng ReqOpen"
  shows "(eng ReqClear \<and> insertsSucceed eng xs \<longrightarrow>
            replaceInterviewsDB eng xs st = (Inr (), storeOf xs)) \<and>
         (\<not> eng ReqClear \<longrightarrow>
            replaceInterviewsDB eng xs st = (Inl CouldNotClear, st)) \<and>
         (eng ReqClear \<and> \<not> insertsSucceed eng xs \<longrightarrow>
            replaceInterviewsDB eng xs st = (Inl TransactionFailed, st))"
  using assms by (simp add: replaceInterviewsDB_cases)

theorem replaceInterviewsDB_outcome_witness:
  "healthyEngine ReqOpen \<and> healthyEngine ReqClear \<and>
   insertsSucceed healthyEngine [exampleRecord ''a'' JAN, exampleRecord ''b'' FEB] \<and>
   replaceInterviewsDB healthyEngine [exampleRecord ''a'' JAN, exampleRecord ''b'' FEB]
       [''z'' \<mapsto> exampleRecord ''z'' DEC] =
     (Inr (), storeOf [exampleRecord ''a'' JAN, exampleRecord ''b'' FEB]) \<and>
   noClearEngine ReqOpen \<and> \<not> noClearEngine ReqClear \<and>
   replaceInterviewsDB noClearEngine [exampleRecord ''a'' JAN] [''z'' \<mapsto> exampleRecord ''z'' DEC] =
     (Inl CouldNotClear, [''z'' \<mapsto> exampleRecord ''z'' DEC]) \<and>
   \<not> insertsSucceed healthyEngine [exampleRecord ''a'' JAN, exampleRecord ''a'' FEB] \<and>
   replaceInterviewsDB healthyEngine [exampleRecord ''a'' JAN, exampleRecord ''a'' FEB]
       [''z'' \<mapsto> exampleRecord ''z'' DEC] =
     (Inl TransactionFailed, [''z'' \<mapsto> exampleRecord ''z'' DEC])"
  using replaceInterviewsDB_outcome
      [of healthyEngine "[exampleRecord ''a'' JAN, exampleRecord ''b'' FEB]"
          "[''z'' \<mapsto> exampleRecord ''z'' DEC]"]
    replaceInterviewsDB_outcome
      [of noClearEngine "[exampleRecord ''a'' JAN]" "[''z'' \<mapsto> exampleRecord ''z'' DEC]"]
    replaceInterviewsDB_outcome
      [of healthyEngine "[exampleRecord ''a'' JAN, exampleRecord ''a'' FEB]"
          "[''z'' \<mapsto> exampleRecord ''z'' DEC]"]
  by (simp add: healthyEngine_def noClearEngine_def insertsSucceed_def exampleRecord_def)

text \<open>
  The claim as stated fails: the clear step succeeds, the second of two records with the
  id \<open>a\<close> cannot be inserted, and the operation rejects instead of reporting completion.
\<close>

theorem replaceInterviewsDB_insert_failure_counterexample:
  "healthyEngine ReqOpen \<and> healthyEngine ReqClear \<and>
   fst (replaceInterviewsDB healthyEngine [exampleRecord ''a'' JAN, exampleRecord ''a'' FEB]
          Map.empty) = Inl TransactionFailed"
  by (simp add: replaceInterviewsDB_def healthyEngine_def exampleRecord_def)

section \<open>Properties of the Session Controller\<close>

lemma recordEtag_fields:
  "sessionMode (recordEtag r s) = sessionMode s"
  "interviews (recordEtag r s) = interviews s"
  "isLoading (recordEtag r s) = isLoading s"
  "syncUrl (recordEtag r s) = syncUrl s"
  "syncStatus (recordEtag r s) = syncStatus s"
  "syncError (recordEtag r s) = syncError s"
  "localStorage (recordEtag r s) = localStorage s"
  "db (recordEtag r s) = db s"
  "requests (recordEtag r s) = requests s"
  by (simp_all add: recordEtag_def split: option.splits)

lemma addCatch_requests: "requests (snd (addCatch env r e s)) = requests s"
  by (simp add: addCatch_def Let_def split: prod.splits sum.splits)

lemma addCatch_props:
  "syncStatus (snd (addCatch env r e s)) = Error \<and>
   interviews (snd (addCatch env r e s)) = interviews s \<and>
   isl (fst (addCatch env r e s)) \<and>
   db (snd (addCatch env r e s)) = snd (addInterviewDB (idbOk env) r (db s))"
  by (simp add: addCatch_def Let_def split: prod.splits sum.splits)

text \<open>
  Claim C1. \<open>addInterview\<close> of a record \<open>r\<close> on a shared session whose \<open>PATCH\<close> fails (no
  response, or a status that is not a success): the operation ends with an error, the one
  request sent is the \<open>PATCH\<close>, the Sync status is \<open>Error\<close>, \<open>r\<close> stays in the in-memory
  Dataset, and the Local Store holds \<open>r\<close>. The record is new to the Local Store, as the
  ids the form generates are (the time and a random number), and the storage engine
  performs the insert.
\<close>

theorem addInterview_remote_failure:
  assumes shared: "sharedUrl s = Some url"
    and fails:
      "net env \<lparr>req_method = PATCH, req_url = url,
                req_contentType = Some ''application/json-patch+json'',
                req_body = JsonPatchAdd r\<rparr> = NetworkError \<or>
       (\<exists>resp. net env \<lparr>req_method = PATCH, req_url = url,
                        req_contentType = Some ''application/json-patch+json'',
                        req_body = JsonPatchAdd r\<rparr> = Response resp \<and> \<not> ok resp)"
    and engine: "idbOk env ReqOpen" "idbOk env (ReqAdd r)"
    and fresh: "db s (rec_id r) = None"
  shows "isl (fst (addInterview env r s)) \<and>
         requests (snd (addInterview env r s)) =
           requests s @ [\<lparr>req_method = PATCH, req_url = url,
                          req_contentType = Some ''application/json-patch+json'',
                          req_body = JsonPatchAdd r\<rparr>] \<and>
         syncStatus (snd (addInterview env r s)) = Error \<and>
         r \<in> set (interviews (snd (addInterview env r s))) \<and>
         db (snd (addInterview env r s)) = (db s)(rec_id r \<mapsto> r)"
proof -
  obtain e where run: "addInterview env r s =
      addCatch env r e (s\<lparr>interviews := sortInterviews (getTime env) (interviews s @ [r]),
                          syncStatus := Syncing,
                          requests := requests s @ [patchRequest url r]\<rparr>)"
    using shared fails by (auto simp: addInterview_def fetch_def Let_def patchRequest_def)
  show ?thesis
    unfolding run using engine fresh
    by (simp add: addCatch_props addCatch_requests set_sortInterviews addInterviewDB_contains
        patchRequest_def)
qed

theorem addInterview_remote_failure_witness:
  "sharedUrl (sharedState ''https://kvdb.io/bin'' [exampleRecord ''a'' JAN]) =
     Some ''https://kvdb.io/bin'' \<and>
   net offlineEnv \<lparr>req_method = PATCH, req_url = ''https://kvdb.io/bin'',
                   req_contentType = Some ''application/json-patch+json'',
                   req_body = JsonPatchAdd (exampleRecord ''b'' FEB)\<rparr> = NetworkError \<and>
   idbOk offlineEnv ReqOpen \<and> idbOk offlineEnv (ReqAdd (exampleRecord ''b'' FEB)) \<and>
   db (sharedState ''https://kvdb.io/bin'' [exampleRecord ''a'' JAN]) ''b'' = None \<and>
   isl (fst (addInterview offlineEnv (exampleRecord ''b'' FEB)
     (sharedState ''https://kvdb.io/bin'' [exampleRecord ''a'' JAN]))) \<and>
   syncStatus (snd (addInterview offlineEnv (exampleRecord ''b'' FEB)
     (sharedState ''https://kvdb.io/bin'' [exampleRecord ''a'' JAN]))) = Error \<and>
   exampleRecord ''b'' FEB \<in> set (interviews (snd (addInterview offlineEnv
     (exampleRecord ''b'' FEB)
     (sharedState ''https://kvdb.io/bin'' [exampleRecord ''a'' JAN])))) \<and>
   db (snd (addInterview offlineEnv (exampleRecord ''b'' FEB)
     (sharedState ''https://kvdb.io/bin'' [exampleRecord ''a'' JAN]))) ''b'' =
     Some (exampleRecord ''b'' FEB) \<and>
   db (snd (addInterview offlineEnv (exampleRecord ''b'' FEB)
     (sharedState ''https://kvdb.io/bin'' [exampleRecord ''a'' JAN]))) ''a'' =
     Some (exampleRecord ''a'' JAN)"
proof -
  let ?s = "sharedState ''https://kvdb.io/bin'' [exampleRecord ''a'' JAN]"
  let ?r = "exampleRecord ''b'' FEB"
  have shared: "sharedUrl ?s = Some ''https://kvdb.io/bin''"
    by (simp add: sharedUrl_def sharedState_def)
  have offline:
    "net offlineEnv \<lparr>req_method = PATCH, req_url = ''https://kvdb.io/bin'',
                     req_contentType = Some ''application/json-patch+json'',
                     req_body = JsonPatchAdd ?r\<rparr> = NetworkError"
    by (simp add: offlineEnv_def)
  have engine: "idbOk offlineEnv ReqOpen" "idbOk offlineEnv (ReqAdd ?r)"
    by (simp_all add: offlineEnv_def healthyEngine_def)
  have ids: "rec_id ?r = ''b''" "rec_id (exampleRecord ''a'' JAN) = ''a''"
    by (simp_all add: exampleRecord_def)
  have store: "db ?s = [''a'' \<mapsto> exampleRecord ''a'' JAN]"
    by (simp add: sharedState_def storeOf_def ids)
  have fresh: "db ?s (rec_id ?r) = None"
    by (simp add: store ids)
  have "isl (fst (addInterview offlineEnv ?r ?s)) \<and>
        syncStatus (snd (addInterview offlineEnv ?r ?s)) = Error \<and>
        ?r \<in> set (interviews (snd (addInterview offlineEnv ?r ?s))) \<and>
        db (snd (addInterview offlineEnv ?r ?s)) = (db ?s)(rec_id ?r \<mapsto> ?r)"
    using addInterview_remote_failure [OF shared _ engine fresh] offline by blast
  then show ?thesis
    using shared offline engine by (simp add: store ids)
qed

lemma getBinData_ok:
  assumes "net env (getRequest url) = Response r" and "ok r"
  shows "getBinData env url s =
           ((case resp_body r of
               InvalidJson \<Rightarrow> Inl JsonSyntaxError
             | JsonArray data \<Rightarrow> Inr data
             | JsonOther \<Rightarrow> Inr []),
            recordEtag r (s\<lparr>requests := requests s @ [getRequest url]\<rparr>))"
  using assms by (simp add: getBinData_def fetch_def Let_def split: payload.splits)

text \<open>
  Claim C3 (amended). When the response of the \<open>GET\<close> is successful and its body is JSON
  but not an array, \<open>getBinData\<close> succeeds with the empty list, after recording the
  \<open>ETag\<close> of the response when there is one.
\<close>

theorem getBinData_non_array_payload:
  assumes "net env (getRequest url) = Response r" and "ok r" and "resp_body r = JsonOther"
  shows "getBinData env url s =
           (Inr [], recordEtag r (s\<lparr>requests := requests s @ [getRequest url]\<rparr>))"
  using assms by (simp add: getBinData_ok)

theorem getBinData_non_array_payload_witness:
  "net (respondingEnv \<lparr>resp_status = 200, resp_etag = Some ''v2'', resp_body = JsonOther\<rparr>)
     (getRequest ''https://kvdb.io/bin'') =
     Response \<lparr>resp_status = 200, resp_etag = Some ''v2'', resp_body = JsonOther\<rparr> \<and>
   ok \<lparr>resp_status = 200, resp_etag = Some ''v2'', resp_body = JsonOther\<rparr> \<and>
   getBinData (respondingEnv \<lparr>resp_status = 200, resp_etag = Some ''v2'', resp_body = JsonOther\<rparr>)
     ''https://kvdb.io/bin'' welcomeState =
     (Inr [], welcomeState\<lparr>etag := Some ''v2'',
                           requests := [getRequest ''https://kvdb.io/bin'']\<rparr>)"
  using getBinData_non_array_payload
    [of "respondingEnv \<lparr>resp_status = 200, resp_etag = Some ''v2'', resp_body = JsonOther\<rparr>"
        "''https://kvdb.io/bin''"
        "\<lparr>resp_status = 200, resp_etag = Some ''v2'', resp_body = JsonOther\<rparr>" welcomeState]
  by (simp add: respondingEnv_def ok_def recordEtag_def welcomeState_def)

text \<open>
  The claim as stated fails: a successful response whose body is JSON but not an array
  makes \<open>getBinData\<close> return the empty list, not an error.
\<close>

theorem getBinData_not_ParseError_counterexample:
  "ok \<lparr>resp_status = 200, resp_etag = None, resp_body = JsonOther\<rparr> \<and>
   fst (getBinData (respondingEnv \<lparr>resp_status = 200, resp_etag = None, resp_body = JsonOther\<rparr>)
          ''https://kvdb.io/bin'' welcomeState) = Inr []"
  by (simp add: getBinData_def fetch_def respondingEnv_def ok_def recordEtag_def)

lemma connect_declined_state:
  assumes url: "startsWith url KVDB_PREFIX"
    and resp: "net env (getRequest url) = Response r" "ok r" "resp_body r \<noteq> InvalidJson"
    and declined: "\<not> confirmAnswer env"
  shows "handleConnectSession env url True s =
           (Inr (), (recordEtag r s)\<lparr>syncStatus := Idle, syncError := None, isLoading := False,
                                     requests := requests s @ [getRequest url]\<rparr>)"
proof -
  obtain d where
    "getBinData env url (s\<lparr>syncStatus := Connecting, syncError := None, isLoading := True\<rparr>) =
       (Inr d, recordEtag r (s\<lparr>syncStatus := Connecting, syncError := None, isLoading := True,
                               requests := requests s @ [getRequest url]\<rparr>))"
    using resp by (cases "resp_body r") (simp_all add: getBinData_ok)
  then show ?thesis
    using url declined
    by (simp add: handleConnectSession_def connectTry_def Let_def recordEtag_def
        split: option.splits)
qed

text \<open>
  Claim C4 (amended). When \<open>handleConnectSession\<close> is called with confirmation required,
  the remote data has been fetched and the user declines, the operation ends without an
  error and leaves the persisted association (\<open>localStorage\<close>), the session mode, the
  session URL, the in-memory Dataset and the Local Store unchanged; the Sync status is
  \<open>Idle\<close> and the Sync error message is cleared. The freshness token is not kept: when
  the fetched response carries a non-empty \<open>ETag\<close>, that \<open>ETag\<close> is the token afterwards;
  only when it carries none is the token unchanged.
\<close>

theorem handleConnectSession_declined:
  assumes "startsWith url KVDB_PREFIX"
    and "net env \<lparr>req_method = GET, req_url = url, req_contentType = None,
                   req_body = NoBody\<rparr> = Response r"
    and "ok r" and "resp_body r \<noteq> InvalidJson"
    and "\<not> confirmAnswer env"
  shows "fst (handleConnectSession env url True s) = Inr () \<and>
         localStorage (snd (handleConnectSession env url True s)) = localStorage s \<and>
         sessionMode (snd (handleConnectSession env url True s)) = sessionMode s \<and>
         syncUrl (snd (handleConnectSession env url True s)) = syncUrl s \<and>
         interviews (snd (handleConnectSession env url True s)) = interviews s \<and>
         db (snd (handleConnectSession env url True s)) = db s \<and>
         syncStatus (snd (handleConnectSession env url True s)) = Idle \<and>
         syncError (snd (handleConnectSession env url True s)) = None \<and>
         etag (snd (handleConnectSession env url True s)) =
           (case resp_etag r of
              None \<Rightarrow> etag s
            | Some e \<Rightarrow> if e = [] then etag s else Some e)"
proof -
  have "net env (getRequest url) = Response r"
    using assms(2) by (simp add: getRequest_def)
  then have "handleConnectSession env url True s =
           (Inr (), (recordEtag r s)\<lparr>syncStatus := Idle, syncError := None, isLoading := False,
                                     requests := requests s @ [getRequest url]\<rparr>)"
    using assms by (intro connect_declined_state)
  then show ?thesis
    by (simp add: recordEtag_fields) (simp add: recordEtag_def split: option.splits)
qed

theorem handleConnectSession_declined_witness:
  "startsWith ''https://kvdb.io/bin'' KVDB_PREFIX \<and>
   ok \<lparr>resp_status = 200, resp_etag = Some ''v2'',
       resp_body = JsonArray [exampleRecord ''b'' FEB]\<rparr> \<and>
   \<not> confirmAnswer (respondingEnv
       \<lparr>resp_status = 200, resp_etag = Some ''v2'',
        resp_body = JsonArray [exampleRecord ''b'' FEB]\<rparr>) \<and>
   etag (welcomeState\<lparr>etag := Some ''v1''\<rparr>) = Some ''v1'' \<and>
   fst (handleConnectSession (respondingEnv
       \<lparr>resp_status = 200, resp_etag = Some ''v2'',
        resp_body = JsonArray [exampleRecord ''b'' FEB]\<rparr>)
     ''https://kvdb.io/bin'' True (welcomeState\<lparr>etag := Some ''v1''\<rparr>)) = Inr () \<and>
   interviews (snd (handleConnectSession (respondingEnv
       \<lparr>resp_status = 200, resp_etag = Some ''v2'',
        resp_body = JsonArray [exampleRecord ''b'' FEB]\<rparr>)
     ''https://kvdb.io/bin'' True (welcomeState\<lparr>etag := Some ''v1''\<rparr>))) = [] \<and>
   syncStatus (snd (handleConnectSession (respondingEnv
       \<lparr>resp_status = 200, resp_etag = Some ''v2'',
        resp_body = JsonArray [exampleRecord ''b'' FEB]\<rparr>)
     ''https://kvdb.io/bin'' True (welcomeState\<lparr>etag := Some ''v1''\<rparr>))) = Idle \<and>
   etag (snd (handleConnectSession (respondingEnv
       \<lparr>resp_status = 200, resp_etag = Some ''v2'',
        resp_body = JsonArray [exampleRecord ''b'' FEB]\<rparr>)
     ''https://kvdb.io/bin'' True (welcomeState\<lparr>etag := Some ''v1''\<rparr>))) = Some ''v2''"
proof -
  let ?resp = "\<lparr>resp_status = 200, resp_etag = Some ''v2'',
                 resp_body = JsonArray [exampleRecord ''b'' FEB]\<rparr>"
  let ?env = "respondingEnv ?resp"
  let ?s = "welcomeState\<lparr>etag := Some ''v1''\<rparr>"
  have url: "startsWith ''https://kvdb.io/bin'' KVDB_PREFIX"
    by (simp add: startsWith_def KVDB_PREFIX_def)
  have answered:
    "net ?env \<lparr>req_method = GET, req_url = ''https://kvdb.io/bin'', req_contentType = None,
               req_body = NoBody\<rparr> = Response ?resp"
    by (simp add: respondingEnv_def)
  have good: "ok ?resp" "resp_body ?resp \<noteq> InvalidJson"
    by (simp_all add: ok_def)
  have declined: "\<not> confirmAnswer ?env"
    by (simp add: respondingEnv_def)
  have before: "interviews ?s = []" "etag ?s = Some ''v1''"
    by (simp_all add: welcomeState_def)
  show ?thesis
    using handleConnectSession_declined [OF url answered good declined, of ?s]
      url good declined before
    by simp
qed

text \<open>
  The claim as stated fails: the response carries the \<open>ETag\<close> \<open>v2\<close>, the user declines, and
  the freshness token, which was unset, is \<open>v2\<close> afterwards.
\<close>

theorem declined_join_changes_etag_counterexample:
  "startsWith ''https://kvdb.io/bin'' KVDB_PREFIX \<and>
   \<not> confirmAnswer (respondingEnv
       \<lparr>resp_status = 200, resp_etag = Some ''v2'', resp_body = JsonArray []\<rparr>) \<and>
   etag welcomeState = None \<and>
   etag (snd (handleConnectSession (respondingEnv
       \<lparr>resp_status = 200, resp_etag = Some ''v2'', resp_body = JsonArray []\<rparr>)
     ''https://kvdb.io/bin'' True welcomeState)) = Some ''v2''"
  by (simp add: startsWith_def KVDB_PREFIX_def respondingEnv_def handleConnectSession_def
      connectTry_def getBinData_def getRequest_def fetch_def ok_def recordEtag_def
      welcomeState_def sortInterviews_def Let_def)

text \<open>
  When the overwrite request of \<open>clearInterviews\<close> gets a response, whatever its status,
  or the session is not shared, the local steps run: with a storage engine that performs
  the clear, the in-memory Dataset and the Local Store are empty afterwards.
\<close>

lemma clearInterviews_answered:
  assumes "\<forall>url. sharedUrl s = Some url \<longrightarrow> net env (overwriteRequest url []) \<noteq> NetworkError"
    and "idbOk env ReqOpen" and "idbOk env ReqClear"
  shows "fst (clearInterviews env s) = Inr () \<and>
         interviews (snd (clearInterviews env s)) = [] \<and>
         db (snd (clearInterviews env s)) = Map.empty"
proof (cases "sharedUrl s")
  case None
  then show ?thesis
    using assms by (simp add: clearInterviews_def clearLocal_def clearAllInterviewsDB_def)
next
  case (Some url)
  then obtain r where "net env (overwriteRequest url []) = Response r"
    using assms(1) by (cases "net env (overwriteRequest url [])") auto
  then show ?thesis
    using Some assms(2,3)
    by (simp add: clearInterviews_def fetch_def clearLocal_def clearAllInterviewsDB_def)
qed

text \<open>
  Claim C5. \<open>clearInterviews\<close> on a shared session whose overwrite request gets no response
  (a failure at the level of the network): the operation ends with the error of \<open>fetch\<close>,
  and the in-memory Dataset and the Local Store still hold the record they held before.
\<close>

theorem clearInterviews_network_failure:
  "sharedUrl (sharedState ''https://kvdb.io/bin'' [exampleRecord ''a'' JAN]) =
     Some ''https://kvdb.io/bin'' \<and>
   net offlineEnv (overwriteRequest ''https://kvdb.io/bin'' []) = NetworkError \<and>
   fst (clearInterviews offlineEnv (sharedState ''https://kvdb.io/bin'' [exampleRecord ''a'' JAN])) =
     Inl NetworkFailure \<and>
   interviews (snd (clearInterviews offlineEnv
       (sharedState ''https://kvdb.io/bin'' [exampleRecord ''a'' JAN]))) =
     [exampleRecord ''a'' JAN] \<and>
   db (snd (clearInterviews offlineEnv
       (sharedState ''https://kvdb.io/bin'' [exampleRecord ''a'' JAN]))) ''a'' =
     Some (exampleRecord ''a'' JAN)"
  by (simp add: clearInterviews_def sharedUrl_def sharedState_def fetch_def offlineEnv_def
      storeOf_def exampleRecord_def)




lemma replaceLocal_Nil: "replaceLocal env [] s = clearLocal env s"
  by (simp add: replaceLocal_def clearLocal_def replaceInterviewsDB_def
      clearAllInterviewsDB_def)

lemma clearLocal_etag:
  "clearLocal env (s\<lparr>etag := e\<rparr>) =
     (fst (clearLocal env s), (snd (clearLocal env s))\<lparr>etag := e\<rparr>)"
  by (simp add: clearLocal_def split: prod.splits sum.splits)

lemma remoteAfter_snoc:
  "remoteAfter env (reqs @ [req]) rem = remoteEffect req (net env req) (remoteAfter env reqs rem)"
  by (simp add: remoteAfter_def)

text \<open>
  Claim C8 (amended). For every state and every environment, \<open>replaceInterviews\<close> with the
  empty list ends as \<open>clearInterviews\<close> does, the freshness token apart: the outcome is
  the same, and so is every part of the state but the token, which \<open>clearInterviews\<close>
  leaves as it was and \<open>replaceInterviews\<close> replaces by a non-empty \<open>ETag\<close> of the
  response. When the session is shared, the remote answers the overwrite and the storage
  engine performs the clear, that common end state has an empty in-memory Dataset and an
  empty Local Store, and the one request sent is the \<open>POST\<close> of the empty array to the URL
  of the session; when the answer is a success status, the remote array at that URL is
  empty. When the session is not shared and the engine performs the clear, the in-memory
  Dataset and the Local Store are empty and no request is sent.
\<close>

theorem replaceInterviews_empty_as_clearInterviews:
  "fst (replaceInterviews env [] s) = fst (clearInterviews env s) \<and>
   (snd (replaceInterviews env [] s))\<lparr>etag := etag s\<rparr> = snd (clearInterviews env s) \<and>
   etag (snd (clearInterviews env s)) = etag s \<and>
   (sharedUrl s = Some url \<and>
    net env \<lparr>req_method = POST, req_url = url, req_contentType = Some ''application/json'',
              req_body = JsonArrayBody []\<rparr> = Response r \<longrightarrow>
      etag (snd (replaceInterviews env [] s)) =
        (case resp_etag r of
           None \<Rightarrow> etag s
         | Some e \<Rightarrow> if e = [] then etag s else Some e)) \<and>
   (sharedUrl s = Some url \<and>
    net env \<lparr>req_method = POST, req_url = url, req_contentType = Some ''application/json'',
              req_body = JsonArrayBody []\<rparr> = Response r \<and>
    idbOk env ReqOpen \<and> idbOk env ReqClear \<longrightarrow>
      fst (replaceInterviews env [] s) = Inr () \<and>
      interviews (snd (replaceInterviews env [] s)) = [] \<and>
      db (snd (replaceInterviews env [] s)) = Map.empty \<and>
      requests (snd (replaceInterviews env [] s)) =
        requests s @ [\<lparr>req_method = POST, req_url = url,
                       req_contentType = Some ''application/json'',
                       req_body = JsonArrayBody []\<rparr>] \<and>
      (ok r \<longrightarrow>
         remoteAfter env (requests (snd (replaceInterviews env [] s))) rem url = Some [] \<and>
         remoteAfter env (requests (snd (clearInterviews env s))) rem url = Some [])) \<and>
   (sharedUrl s = None \<and> idbOk env ReqOpen \<and> idbOk env ReqClear \<longrightarrow>
      fst (replaceInterviews env [] s) = Inr () \<and>
      interviews (snd (replaceInterviews env [] s)) = [] \<and>
      db (snd (replaceInterviews env [] s)) = Map.empty \<and>
      requests (snd (replaceInterviews env [] s)) = requests s)"
proof (cases "sharedUrl s")
  case None
  then show ?thesis
    by (simp add: replaceInterviews_def clearInterviews_def sortInterviews_Nil replaceLocal_Nil)
      (simp add: clearLocal_def clearAllInterviewsDB_def)
next
  case (Some u)
  let ?req = "\<lparr>req_method = POST, req_url = u, req_contentType = Some ''application/json'',
                req_body = JsonArrayBody []\<rparr>"
  have req: "overwriteRequest u [] = ?req"
    by (simp add: overwriteRequest_def)
  show ?thesis
  proof (cases "net env ?req")
    case NetworkError
    then show ?thesis using Some
      by (auto simp: replaceInterviews_def clearInterviews_def sortInterviews_Nil fetch_def
          overwriteRequest_def)
  next
    case (Response r')
    have tok: "recordEtag r' (s\<lparr>requests := requests s @ [?req]\<rparr>) =
          s\<lparr>requests := requests s @ [?req], etag := etag (recordEtag r' s)\<rparr>"
      by (simp add: recordEtag_def split: option.splits)
    have tok': "etag (recordEtag r' s) =
          (case resp_etag r' of None \<Rightarrow> etag s | Some e \<Rightarrow> if e = [] then etag s else Some e)"
      by (simp add: recordEtag_def split: option.splits)
    have run: "replaceInterviews env [] s =
          (fst (clearLocal env (s\<lparr>requests := requests s @ [?req]\<rparr>)),
           (snd (clearLocal env (s\<lparr>requests := requests s @ [?req]\<rparr>)))
             \<lparr>etag := etag (recordEtag r' s)\<rparr>)"
      using Some Response
      by (simp add: replaceInterviews_def sortInterviews_Nil fetch_def req tok
          replaceLocal_Nil clearLocal_etag)
    have run': "clearInterviews env s = clearLocal env (s\<lparr>requests := requests s @ [?req]\<rparr>)"
      using Some Response by (simp add: clearInterviews_def fetch_def req)
    have loc: "etag (snd (clearLocal env t)) = etag t" for t
      by (simp add: clearLocal_def split: prod.splits sum.splits)
    have same: "(snd (replaceInterviews env [] s))\<lparr>etag := etag s\<rparr> = snd (clearInterviews env s)"
    proof -
      have "(snd (clearLocal env (s\<lparr>requests := requests s @ [?req]\<rparr>)))\<lparr>etag := etag s\<rparr> =
            snd (clearLocal env (s\<lparr>requests := requests s @ [?req]\<rparr>))"
        by (simp add: clearLocal_def split: prod.splits sum.splits)
      then show ?thesis by (simp add: run run')
    qed
    have emptied: "remoteEffect ?req (Response r') m u = Some []" if "ok r'" for m
      using that by (simp add: remoteEffect_def)
    have A: "fst (replaceInterviews env [] s) = fst (clearInterviews env s)"
      by (simp add: run run')
    have C: "etag (snd (clearInterviews env s)) = etag s"
      by (simp add: run' loc)
    have D: "etag (snd (replaceInterviews env [] s)) =
        (case resp_etag r' of None \<Rightarrow> etag s | Some e \<Rightarrow> if e = [] then etag s else Some e)"
      by (simp add: run tok')
    have E: "fst (replaceInterviews env [] s) = Inr () \<and>
        interviews (snd (replaceInterviews env [] s)) = [] \<and>
        db (snd (replaceInterviews env [] s)) = Map.empty \<and>
        requests (snd (replaceInterviews env [] s)) = requests s @ [?req]"
      if "idbOk env ReqOpen" and "idbOk env ReqClear"
    proof -
      have "clearLocal env t = (Inr (), t\<lparr>db := Map.empty, interviews := []\<rparr>)" for t
        using that by (simp add: clearLocal_def clearAllInterviewsDB_def)
      then show ?thesis by (simp add: run)
    qed
    have F: "remoteAfter env (requests (snd (replaceInterviews env [] s))) rem u = Some [] \<and>
        remoteAfter env (requests (snd (clearInterviews env s))) rem u = Some []"
      if "idbOk env ReqOpen" and "idbOk env ReqClear" and "ok r'"
    proof -
      have "clearLocal env t = (Inr (), t\<lparr>db := Map.empty, interviews := []\<rparr>)" for t
        using that(1,2) by (simp add: clearLocal_def clearAllInterviewsDB_def)
      then show ?thesis
        using Response by (simp add: run run' remoteAfter_snoc emptied [OF that(3)])
    qed
    show ?thesis
      using Some Response A same C D E F by auto
  qed
qed

theorem replaceInterviews_empty_as_clearInterviews_witness:
  "sharedUrl (sharedState ''https://kvdb.io/bin'' [exampleRecord ''a'' JAN]) =
     Some ''https://kvdb.io/bin'' \<and>
   ok \<lparr>resp_status = 200, resp_etag = Some ''v2'', resp_body = JsonOther\<rparr> \<and>
   fst (clearInterviews
     (respondingEnv \<lparr>resp_status = 200, resp_etag = Some ''v2'', resp_body = JsonOther\<rparr>)
     (sharedState ''https://kvdb.io/bin'' [exampleRecord ''a'' JAN])) = Inr () \<and>
   interviews (snd (replaceInterviews
     (respondingEnv \<lparr>resp_status = 200, resp_etag = Some ''v2'', resp_body = JsonOther\<rparr>) []
     (sharedState ''https://kvdb.io/bin'' [exampleRecord ''a'' JAN]))) = [] \<and>
   db (snd (replaceInterviews
     (respondingEnv \<lparr>resp_status = 200, resp_etag = Some ''v2'', resp_body = JsonOther\<rparr>) []
     (sharedState ''https://kvdb.io/bin'' [exampleRecord ''a'' JAN]))) = Map.empty \<and>
   etag (snd (replaceInterviews
     (respondingEnv \<lparr>resp_status = 200, resp_etag = Some ''v2'', resp_body = JsonOther\<rparr>) []
     (sharedState ''https://kvdb.io/bin'' [exampleRecord ''a'' JAN]))) = Some ''v2'' \<and>
   etag (snd (clearInterviews
     (respondingEnv \<lparr>resp_status = 200, resp_etag = Some ''v2'', resp_body = JsonOther\<rparr>)
     (sharedState ''https://kvdb.io/bin'' [exampleRecord ''a'' JAN]))) = None \<and>
   remoteAfter
     (respondingEnv \<lparr>resp_status = 200, resp_etag = Some ''v2'', resp_body = JsonOther\<rparr>)
     (requests (snd (replaceInterviews
       (respondingEnv \<lparr>resp_status = 200, resp_etag = Some ''v2'', resp_body = JsonOther\<rparr>) []
       (sharedState ''https://kvdb.io/bin'' [exampleRecord ''a'' JAN]))))
     [''https://kvdb.io/bin'' \<mapsto> [exampleRecord ''a'' JAN]] ''https://kvdb.io/bin'' = Some []"
proof -
  let ?resp = "\<lparr>resp_status = 200, resp_etag = Some ''v2'', resp_body = JsonOther\<rparr>"
  let ?env = "respondingEnv ?resp"
  let ?s = "sharedState ''https://kvdb.io/bin'' [exampleRecord ''a'' JAN]"
  let ?rem = "[''https://kvdb.io/bin'' \<mapsto> [exampleRecord ''a'' JAN]]"
  have shared: "sharedUrl ?s = Some ''https://kvdb.io/bin''"
    by (simp add: sharedUrl_def sharedState_def)
  have before: "etag ?s = None"
    by (simp add: sharedState_def)
  have answered:
    "net ?env \<lparr>req_method = POST, req_url = ''https://kvdb.io/bin'',
               req_contentType = Some ''application/json'',
               req_body = JsonArrayBody []\<rparr> = Response ?resp"
    by (simp add: respondingEnv_def)
  have good: "ok ?resp"
    by (simp add: ok_def)
  have engine: "idbOk ?env ReqOpen \<and> idbOk ?env ReqClear"
    by (simp add: respondingEnv_def healthyEngine_def)
  have "fst (replaceInterviews ?env [] ?s) = fst (clearInterviews ?env ?s) \<and>
        etag (snd (clearInterviews ?env ?s)) = etag ?s \<and>
        etag (snd (replaceInterviews ?env [] ?s)) =
          (case resp_etag ?resp of
             None \<Rightarrow> etag ?s
           | Some e \<Rightarrow> if e = [] then etag ?s else Some e) \<and>
        fst (replaceInterviews ?env [] ?s) = Inr () \<and>
        interviews (snd (replaceInterviews ?env [] ?s)) = [] \<and>
        db (snd (replaceInterviews ?env [] ?s)) = Map.empty \<and>
        remoteAfter ?env (requests (snd (replaceInterviews ?env [] ?s))) ?rem
          ''https://kvdb.io/bin'' = Some []"
    using replaceInterviews_empty_as_clearInterviews
        [of ?env ?s "''https://kvdb.io/bin''" ?resp ?rem]
      shared answered good engine
    by blast
  then show ?thesis
    using shared good before by auto
qed

text \<open>
  The claim as stated fails. With a response that carries the \<open>ETag\<close> \<open>v2\<close>, the two
  operations end with different freshness tokens. With a response of status 500, the
  in-memory Dataset and the Local Store are emptied and the remote array is not.
\<close>

theorem replaceInterviews_empty_end_state_counterexample:
  "etag (snd (replaceInterviews
     (respondingEnv \<lparr>resp_status = 200, resp_etag = Some ''v2'', resp_body = JsonOther\<rparr>) []
     (sharedState ''https://kvdb.io/bin'' [exampleRecord ''a'' JAN]))) = Some ''v2'' \<and>
   etag (snd (clearInterviews
     (respondingEnv \<lparr>resp_status = 200, resp_etag = Some ''v2'', resp_body = JsonOther\<rparr>)
     (sharedState ''https://kvdb.io/bin'' [exampleRecord ''a'' JAN]))) = None \<and>
   interviews (snd (replaceInterviews
     (respondingEnv \<lparr>resp_status = 500, resp_etag = None, resp_body = InvalidJson\<rparr>) []
     (sharedState ''https://kvdb.io/bin'' [exampleRecord ''a'' JAN]))) = [] \<and>
   db (snd (replaceInterviews
     (respondingEnv \<lparr>resp_status = 500, resp_etag = None, resp_body = InvalidJson\<rparr>) []
     (sharedState ''https://kvdb.io/bin'' [exampleRecord ''a'' JAN]))) = Map.empty \<and>
   remoteAfter
     (respondingEnv \<lparr>resp_status = 500, resp_etag = None, resp_body = InvalidJson\<rparr>)
     (requests (snd (replaceInterviews
       (respondingEnv \<lparr>resp_status = 500, resp_etag = None, resp_body = InvalidJson\<rparr>) []
       (sharedState ''https://kvdb.io/bin'' [exampleRecord ''a'' JAN]))))
     [''https://kvdb.io/bin'' \<mapsto> [exampleRecord ''a'' JAN]] ''https://kvdb.io/bin'' =
     Some [exampleRecord ''a'' JAN]"
  by (simp add: replaceInterviews_def clearInterviews_def sharedUrl_def sharedState_def
      fetch_def respondingEnv_def replaceLocal_def clearLocal_def replaceInterviewsDB_def
      clearAllInterviewsDB_def healthyEngine_def recordEtag_def sortInterviews_def
      overwriteRequest_def remoteAfter_def remoteEffect_def ok_def)

lemma replaceLocal_keeps_status:
  "syncStatus (snd (replaceLocal env xs s)) = syncStatus s \<and>
   syncError (snd (replaceLocal env xs s)) = syncError s"
  by (simp add: replaceLocal_def split: prod.splits sum.splits)

lemma replaceInterviews_keeps_status:
  "syncStatus (snd (replaceInterviews env rs s)) = syncStatus s \<and>
   syncError (snd (replaceInterviews env rs s)) = syncError s"
  by (simp add: replaceInterviews_def fetch_def Let_def replaceLocal_keeps_status
      recordEtag_fields split: option.splits fetch_outcome.splits)

lemma replaceLocal_ok:
  "idbOk env ReqOpen \<Longrightarrow> idbOk env ReqClear \<Longrightarrow> insertsSucceed (idbOk env) xs \<Longrightarrow>
   replaceLocal env xs s = (Inr (), s\<lparr>db := storeOf xs, interviews := xs\<rparr>)"
  by (simp add: replaceLocal_def replaceInterviewsDB_cases)

text \<open>
  Claim C10 (amended). \<open>replaceInterviews\<close> never changes the Sync status or the Sync
  error message, whatever the remote answers. On a shared session whose overwrite request
  gets a response, of any status, the in-memory Dataset becomes the sorted list and the
  Local Store holds exactly its records, provided the local bulk replace succeeds: the
  storage engine performs the requests and no two records of the list share an id.
\<close>

theorem replaceInterviews_status_and_overwrite:
  "syncStatus (snd (replaceInterviews env rs s)) = syncStatus s \<and>
   syncError (snd (replaceInterviews env rs s)) = syncError s \<and>
   (sharedUrl s = Some url \<and>
    net env (overwriteRequest url (sortInterviews (getTime env) rs)) = Response resp \<and>
    idbOk env ReqOpen \<and> idbOk env ReqClear \<and> insertsSucceed (idbOk env) rs \<longrightarrow>
      fst (replaceInterviews env rs s) = Inr () \<and>
      interviews (snd (replaceInterviews env rs s)) = sortInterviews (getTime env) rs \<and>
      db (snd (replaceInterviews env rs s)) = storeOf (sortInterviews (getTime env) rs) \<and>
      ran (db (snd (replaceInterviews env rs s))) = set rs)"
proof -
  have "ran (storeOf (sortInterviews (getTime env) rs)) = set rs" if "insertsSucceed (idbOk env) rs"
    using that ran_storeOf [of "sortInterviews (getTime env) rs"]
      insertsSucceed_sortInterviews [of "idbOk env" "getTime env" rs]
    by (simp add: insertsSucceed_def set_sortInterviews)
  then show ?thesis
    by (simp add: replaceInterviews_keeps_status)
      (simp add: replaceInterviews_def fetch_def Let_def replaceLocal_ok
        insertsSucceed_sortInterviews)
qed

theorem replaceInterviews_status_and_overwrite_witness:
  "sharedUrl (sharedState ''https://kvdb.io/bin'' [exampleRecord ''z'' DEC]) =
     Some ''https://kvdb.io/bin'' \<and>
   \<not> ok \<lparr>resp_status = 500, resp_etag = None, resp_body = InvalidJson\<rparr> \<and>
   insertsSucceed healthyEngine [exampleRecord ''a'' JAN, exampleRecord ''b'' FEB] \<and>
   syncStatus (snd (replaceInterviews
     (respondingEnv \<lparr>resp_status = 500, resp_etag = None, resp_body = InvalidJson\<rparr>)
     [exampleRecord ''a'' JAN, exampleRecord ''b'' FEB]
     (sharedState ''https://kvdb.io/bin'' [exampleRecord ''z'' DEC]))) = Connected \<and>
   syncError (snd (replaceInterviews
     (respondingEnv \<lparr>resp_status = 500, resp_etag = None, resp_body = InvalidJson\<rparr>)
     [exampleRecord ''a'' JAN, exampleRecord ''b'' FEB]
     (sharedState ''https://kvdb.io/bin'' [exampleRecord ''z'' DEC]))) = None \<and>
   interviews (snd (replaceInterviews
     (respondingEnv \<lparr>resp_status = 500, resp_etag = None, resp_body = InvalidJson\<rparr>)
     [exampleRecord ''a'' JAN, exampleRecord ''b'' FEB]
     (sharedState ''https://kvdb.io/bin'' [exampleRecord ''z'' DEC]))) =
     [exampleRecord ''b'' FEB, exampleRecord ''a'' JAN] \<and>
   ran (db (snd (replaceInterviews
     (respondingEnv \<lparr>resp_status = 500, resp_etag = None, resp_body = InvalidJson\<rparr>)
     [exampleRecord ''a'' JAN, exampleRecord ''b'' FEB]
     (sharedState ''https://kvdb.io/bin'' [exampleRecord ''z'' DEC])))) =
     {exampleRecord ''a'' JAN, exampleRecord ''b'' FEB}"
proof -
  let ?resp = "\<lparr>resp_status = 500, resp_etag = None, resp_body = InvalidJson\<rparr>"
  let ?env = "respondingEnv ?resp"
  let ?rs = "[exampleRecord ''a'' JAN, exampleRecord ''b'' FEB]"
  let ?s = "sharedState ''https://kvdb.io/bin'' [exampleRecord ''z'' DEC]"
  have shared: "sharedUrl ?s = Some ''https://kvdb.io/bin''"
    by (simp add: sharedUrl_def sharedState_def)
  have answered:
    "net ?env (overwriteRequest ''https://kvdb.io/bin'' (sortInterviews (getTime ?env) ?rs)) =
       Response ?resp"
    by (simp add: respondingEnv_def)
  have engine: "idbOk ?env ReqOpen \<and> idbOk ?env ReqClear \<and> idbOk ?env = healthyEngine"
    by (simp add: respondingEnv_def healthyEngine_def)
  have ins: "insertsSucceed healthyEngine ?rs"
    by (simp add: insertsSucceed_def healthyEngine_def exampleRecord_def)
  have st: "syncStatus ?s = Connected \<and> syncError ?s = None"
    by (simp add: sharedState_def)
  have srt: "sortInterviews (getTime ?env) ?rs = [exampleRecord ''b'' FEB, exampleRecord ''a'' JAN]"
    by (simp add: respondingEnv_def sortInterviews_def compareInterviews_def nanToZero_def
        exampleClock_def exampleRecord_def DEC_def JAN_def FEB_def)
  have "syncStatus (snd (replaceInterviews ?env ?rs ?s)) = syncStatus ?s \<and>
        syncError (snd (replaceInterviews ?env ?rs ?s)) = syncError ?s \<and>
        interviews (snd (replaceInterviews ?env ?rs ?s)) = sortInterviews (getTime ?env) ?rs \<and>
        ran (db (snd (replaceInterviews ?env ?rs ?s))) = set ?rs"
    using replaceInterviews_status_and_overwrite
      [of ?env ?rs ?s "''https://kvdb.io/bin''" ?resp] shared answered engine ins
    by metis
  then show ?thesis
    using shared ins st srt by (simp add: ok_def)
qed

text \<open>
  The claim as stated fails for a list in which two records share an id: the remote
  answers, the local bulk replace is rejected, and neither the in-memory Dataset nor the
  Local Store is overwritten with the new records.
\<close>

theorem replaceInterviews_duplicate_ids_counterexample:
  "sharedUrl (sharedState ''https://kvdb.io/bin'' [exampleRecord ''z'' DEC]) =
     Some ''https://kvdb.io/bin'' \<and>
   fst (replaceInterviews
     (respondingEnv \<lparr>resp_status = 200, resp_etag = None, resp_body = JsonOther\<rparr>)
     [exampleRecord ''a'' JAN, exampleRecord ''a'' FEB]
     (sharedState ''https://kvdb.io/bin'' [exampleRecord ''z'' DEC])) =
     Inl (DbRejection TransactionFailed) \<and>
   interviews (snd (replaceInterviews
     (respondingEnv \<lparr>resp_status = 200, resp_etag = None, resp_body = JsonOther\<rparr>)
     [exampleRecord ''a'' JAN, exampleRecord ''a'' FEB]
     (sharedState ''https://kvdb.io/bin'' [exampleRecord ''z'' DEC]))) =
     [exampleRecord ''z'' DEC] \<and>
   db (snd (replaceInterviews
     (respondingEnv \<lparr>resp_status = 200, resp_etag = None, resp_body = JsonOther\<rparr>)
     [exampleRecord ''a'' JAN, exampleRecord ''a'' FEB]
     (sharedState ''https://kvdb.io/bin'' [exampleRecord ''z'' DEC]))) ''a'' = None"
  by (simp add: replaceInterviews_def sharedUrl_def sharedState_def fetch_def respondingEnv_def
      replaceLocal_def replaceInterviewsDB_def healthyEngine_def storeOf_def recordEtag_def
      sortInterviews_def compareInterviews_def exampleRecord_def)

end
